theory Spec2Isabelle
  imports Complex_Main "HOL-Library.Log_Nat"
begin

section \<open>Data model of ScrollyTeller.js\<close>

text \<open>
  A DOM element is a handle; the only part of the DOM the orchestrator itself writes is
  the class list of a narration element (\<^verbatim>\<open>select(element).classed('active', ...)\<close>).
  JavaScript numbers that the code only passes along (the progress value) are reals;
  indices are natural numbers, as scrollama counts the step elements from 0.
\<close>

type_synonym element = nat

datatype direction = Up | Down

datatype error = TypeError | ConfigValidationError | Rejected string

text \<open>A narration row; \<open>trigger = None\<close> is a row without the property (undefined).\<close>

record narrationEntry =
  trigger :: "string option"

text \<open>
  The \<^verbatim>\<open>narration\<close> property of a section: a file path, an array of rows, or a promise
  (the comment in the section configuration lists the three); \<open>None\<close> at the use site
  is a section without the property.
\<close>

datatype narrationSource = Path string | Array "narrationEntry list" | Promise nat

text \<open>
  User-supplied functions are opaque: a section refers to them by name, and what the
  orchestrator does with them is recorded as a call. \<open>noop\<close> is lodash's.
\<close>

datatype callback = noop | UserFunction string

text \<open>
  The CSSNames object (utils/CSSNames is not part of the sources at hand): its naming
  functions are fields, applied to a section identifier that may be undefined.
\<close>

record cssNames =
  constructor_name :: string
  css_narrationBlock :: string
  sectionId :: "string option \<Rightarrow> string"
  graphId :: "string option \<Rightarrow> string"

text \<open>The options object passed to \<^verbatim>\<open>scroller.setup\<close>.\<close>

record setupOptions =
  step :: string
  container :: string
  graphic :: string
  offset :: real
  progress :: bool

text \<open>
  The three handlers registered on a scroller are closures over the constants
  destructured from the section in \<^verbatim>\<open>_buildScrollamaContainers\<close>: \<^verbatim>\<open>narration\<close>,
  \<^verbatim>\<open>graphId\<close> and the two callbacks with their \<^verbatim>\<open>noop\<close> defaults. The
  \<^verbatim>\<open>sectionConfig\<close> they pass on is a reference to the section object: the position
  of the section in the section list.
\<close>

record stepHandlers =
  h_narration :: "narrationSource option"
  h_graphId :: string
  h_onScrollFunction :: callback
  h_onActivateNarrationFunction :: callback
  h_sectionConfig :: nat

text \<open>\<^verbatim>\<open>scrollama()\<close> is a fresh scroller; setup and the three registrations configure it.\<close>

datatype scroller = scrollama | Configured setupOptions stepHandlers

text \<open>
  A section object. Every property the orchestrator reads or writes is a field; a
  property that may be undefined is an option. \<open>'d\<close> is the section's data and
  \<open>'g\<close> the graph handle, both opaque to the orchestrator.
\<close>

record ('d, 'g) sectionConfig =
  sectionIdentifier :: "string option"
  narration :: "narrationSource option"
  data :: "'d"
  buildGraphFunction :: "callback option"
  onScrollFunction :: "callback option"
  onActivateNarrationFunction :: "callback option"
  showSpacers :: "bool option"
  useDefaultGraphCSS :: "bool option"
  appContainerId :: "string option"
  cssNames :: "cssNames option"
  graph :: "'g option"
  scroller :: "scroller option"

text \<open>The object a user callback receives from the step handlers.\<close>

record ('d, 'g) args =
  index :: nat
  progress :: real
  element :: element
  trigger :: string
  direction :: direction
  graphId :: string
  sectionConfig :: "('d, 'g) sectionConfig"

text \<open>The payload scrollama hands to the three handlers.\<close>

datatype event =
    StepEnter element nat direction
  | StepExit element
  | StepProgress element nat direction real

text \<open>
  What the handlers act on after \<^verbatim>\<open>render\<close>: the class list of every element, and the
  calls made to callbacks so far, oldest first.
\<close>

record ('d, 'g) page =
  classes :: "element \<Rightarrow> string set"
  calls :: "(callback \<times> ('d, 'g) args) list"

section \<open>The step handlers of \<^verbatim>\<open>_buildScrollamaContainers\<close>\<close>

text \<open>\<^verbatim>\<open>select(element).classed(name, value)\<close>: add or remove one class of one element.\<close>

definition classed :: "element \<Rightarrow> string \<Rightarrow> bool \<Rightarrow> ('d, 'g) page \<Rightarrow> ('d, 'g) page" where
  "classed el name v pg =
     pg\<lparr>classes := (classes pg)(el := (if v then insert name (classes pg el)
                                         else classes pg el - {name}))\<rparr>"

definition invoke :: "callback \<Rightarrow> ('d, 'g) args \<Rightarrow> ('d, 'g) page \<Rightarrow> ('d, 'g) page" where
  "invoke f a pg = pg\<lparr>calls := calls pg @ [(f, a)]\<rparr>"

text \<open>
  \<^verbatim>\<open>const { trigger = '' } = narration[index]\<close>. Destructuring undefined throws a
  TypeError: that is \<^verbatim>\<open>narration[index]\<close> past the end of the array, on a promise
  object, or past the end of a path string, and \<^verbatim>\<open>narration\<close> itself undefined. A
  character of a path string has no \<^verbatim>\<open>trigger\<close>, so the default applies.
\<close>

fun triggerAt :: "narrationSource option \<Rightarrow> nat \<Rightarrow> error + string" where
  "triggerAt None i = Inl TypeError"
| "triggerAt (Some (Array rows)) i =
     (if i < length rows
      then Inr (case narrationEntry.trigger (rows ! i) of None \<Rightarrow> '''' | Some t \<Rightarrow> t)
      else Inl TypeError)"
| "triggerAt (Some (Path p)) i = (if i < length p then Inr '''' else Inl TypeError)"
| "triggerAt (Some (Promise p)) i = Inl TypeError"

definition onStepEnter ::
  "stepHandlers \<Rightarrow> ('d, 'g) sectionConfig \<Rightarrow> element \<Rightarrow> nat \<Rightarrow> direction \<Rightarrow>
   ('d, 'g) page \<Rightarrow> error + ('d, 'g) page" where
  "onStepEnter h sc el i d pg =
     (case triggerAt (h_narration h) i of
        Inl e \<Rightarrow> Inl e
      | Inr t \<Rightarrow>
          Inr (invoke (h_onActivateNarrationFunction h)
                 \<lparr>index = i, progress = 0, element = el, trigger = t, direction = d,
                  graphId = h_graphId h, sectionConfig = sc\<rparr>
                 (classed el ''active'' True pg)))"

definition onStepExit :: "element \<Rightarrow> ('d, 'g) page \<Rightarrow> error + ('d, 'g) page" where
  "onStepExit el pg = Inr (classed el ''active'' False pg)"

definition onStepProgress ::
  "stepHandlers \<Rightarrow> ('d, 'g) sectionConfig \<Rightarrow> element \<Rightarrow> nat \<Rightarrow> direction \<Rightarrow> real \<Rightarrow>
   ('d, 'g) page \<Rightarrow> error + ('d, 'g) page" where
  "onStepProgress h sc el i d p pg =
     (case triggerAt (h_narration h) i of
        Inl e \<Rightarrow> Inl e
      | Inr t \<Rightarrow>
          Inr (invoke (h_onScrollFunction h)
                 \<lparr>index = i, progress = p, element = el, trigger = t, direction = d,
                  graphId = h_graphId h, sectionConfig = sc\<rparr>
                 pg))"

text \<open>
  One notification of a configured scroller. The section object is read when the
  handler runs, so the callback sees the section as it is then.
\<close>

fun handle ::
  "stepHandlers \<Rightarrow> ('d, 'g) sectionConfig \<Rightarrow> event \<Rightarrow> ('d, 'g) page \<Rightarrow> error + ('d, 'g) page" where
  "handle h sc (StepEnter el i d) pg = onStepEnter h sc el i d pg"
| "handle h sc (StepExit el) pg = onStepExit el pg"
| "handle h sc (StepProgress el i d p) pg = onStepProgress h sc el i d p pg"

text \<open>
  A handler that throws leaves the page as it was (the throw in the handlers above comes
  before any write); the exception goes to the host and the next notification is handled.
\<close>

definition deliver ::
  "stepHandlers \<Rightarrow> ('d, 'g) sectionConfig \<Rightarrow> ('d, 'g) page \<Rightarrow> event \<Rightarrow> ('d, 'g) page" where
  "deliver h sc pg ev = (case handle h sc ev pg of Inl e \<Rightarrow> pg | Inr pg' \<Rightarrow> pg')"

definition deliverAll ::
  "stepHandlers \<Rightarrow> ('d, 'g) sectionConfig \<Rightarrow> ('d, 'g) page \<Rightarrow> event list \<Rightarrow> ('d, 'g) page" where
  "deliverAll h sc pg evs = foldl (deliver h sc) pg evs"

definition active :: "('d, 'g) page \<Rightarrow> element \<Rightarrow> bool" where
  "active pg el = (''active'' \<in> classes pg el)"

section \<open>The constructor and \<^verbatim>\<open>render\<close>\<close>

text \<open>The configuration object a user passes to \<^verbatim>\<open>new ScrollyTeller(config)\<close>.\<close>

record ('d, 'g) config =
  appContainerId :: "string option"
  sectionList :: "('d, 'g) sectionConfig list option"
  cssNames :: "cssNames option"

text \<open>
  The instance. \<^verbatim>\<open>this.sectionList\<close> is the array of the configuration object itself,
  holding the same section objects.
\<close>

record ('d, 'g) ScrollyTeller =
  appContainerId :: "string option"
  sectionList :: "('d, 'g) sectionConfig list option"
  cssNames :: cssNames

text \<open>
  Modelled from the spec: \<^verbatim>\<open>validateScrollyTellerConfig\<close> (utils/index is not part of
  the sources at hand). The spec names the failures: a missing required field (the
  container id, the section list, a section's identifier, a section's narration, which
  "is mandatory") and a section identifier that occurs twice. The result is the
  exception thrown, if any.
\<close>

definition validateScrollyTellerConfig :: "('d, 'g) config \<Rightarrow> error option" where
  "validateScrollyTellerConfig c =
     (case config.appContainerId c of
        None \<Rightarrow> Some ConfigValidationError
      | Some _ \<Rightarrow>
          (case config.sectionList c of
             None \<Rightarrow> Some ConfigValidationError
           | Some secs \<Rightarrow>
               if list_ex (\<lambda>s. sectionIdentifier s = None \<or> narration s = None) secs
                  \<or> \<not> distinct (map sectionIdentifier secs)
               then Some ConfigValidationError
               else None))"

text \<open>The body of the \<^verbatim>\<open>forEach\<close> in \<^verbatim>\<open>_assignConfigVariablesToSectionConfigs\<close>.\<close>

definition assignConfigVariables ::
  "('d, 'g) ScrollyTeller \<Rightarrow> ('d, 'g) sectionConfig \<Rightarrow> ('d, 'g) sectionConfig" where
  "assignConfigVariables this section =
     section\<lparr>showSpacers := (case showSpacers section of None \<Rightarrow> Some True | Some b \<Rightarrow> Some b),
             useDefaultGraphCSS :=
               (case useDefaultGraphCSS section of None \<Rightarrow> Some True | Some b \<Rightarrow> Some b),
             sectionConfig.appContainerId := ScrollyTeller.appContainerId this,
             sectionConfig.cssNames := Some (ScrollyTeller.cssNames this)\<rparr>"

text \<open>lodash's \<^verbatim>\<open>forEach\<close> visits nothing when the collection is undefined.\<close>

definition assignConfigVariablesToSectionConfigs ::
  "('d, 'g) ScrollyTeller \<Rightarrow> ('d, 'g) ScrollyTeller" where
  "assignConfigVariablesToSectionConfigs this =
     this\<lparr>ScrollyTeller.sectionList :=
            map_option (map (assignConfigVariables this)) (ScrollyTeller.sectionList this)\<rparr>"

text \<open>
  \<^verbatim>\<open>new ScrollyTeller(config)\<close>, with \<^verbatim>\<open>new CSSNames()\<close> as a parameter. The result is
  the exception or the instance, and the configuration object as the call leaves it:
  its sections are written in place.
\<close>

definition "constructor" ::
  "cssNames \<Rightarrow> ('d, 'g) config \<Rightarrow> (error + ('d, 'g) ScrollyTeller) \<times> ('d, 'g) config" where
  "constructor new_CSSNames c =
     (case validateScrollyTellerConfig c of
        Some e \<Rightarrow> (Inl e, c)
      | None \<Rightarrow>
          let names = (case config.cssNames c of
                         None \<Rightarrow> new_CSSNames
                       | Some n \<Rightarrow> if constructor_name n \<noteq> ''CSSNames'' then new_CSSNames else n);
              this = assignConfigVariablesToSectionConfigs
                       \<lparr>ScrollyTeller.appContainerId = config.appContainerId c,
                        ScrollyTeller.sectionList = config.sectionList c,
                        ScrollyTeller.cssNames = names\<rparr>
          in (Inr this, c\<lparr>config.sectionList := ScrollyTeller.sectionList this\<rparr>))"

text \<open>
  The collaborators \<^verbatim>\<open>render\<close> calls: the two resolvers and the section builder of
  utils/index, and the user's graph builders. Each may throw (or reject), and otherwise
  returns what it leaves of the object it was given.
\<close>

record ('d, 'g) collaborators =
  fetchNarration ::
    "('d, 'g) sectionConfig list option \<Rightarrow> error + ('d, 'g) sectionConfig list option"
  fetchDataAndProcessResults ::
    "('d, 'g) sectionConfig list option \<Rightarrow> error + ('d, 'g) sectionConfig list option"
  buildSectionWithNarration :: "('d, 'g) sectionConfig \<Rightarrow> error + ('d, 'g) sectionConfig"
  callBuildGraph :: "callback \<Rightarrow> string \<Rightarrow> ('d, 'g) sectionConfig \<Rightarrow> error + 'g option"

text \<open>The calls \<^verbatim>\<open>render\<close> makes to them and to scrollama, in the order made.\<close>

datatype call =
    Call_fetchNarration
  | Call_fetchDataAndProcessResults
  | Call_buildSectionWithNarration nat
  | Call_scrollama_setup nat
  | Call_buildGraphFunction nat

record ('d, 'g) run =
  this :: "('d, 'g) ScrollyTeller"
  trace :: "call list"
  thrown :: "error option"

definition sections :: "('d, 'g) run \<Rightarrow> ('d, 'g) sectionConfig list" where
  "sections r = (case ScrollyTeller.sectionList (this r) of None \<Rightarrow> [] | Some secs \<Rightarrow> secs)"

definition setSection :: "nat \<Rightarrow> ('d, 'g) sectionConfig \<Rightarrow> ('d, 'g) run \<Rightarrow> ('d, 'g) run" where
  "setSection k sc r =
     r\<lparr>this := (this r)\<lparr>ScrollyTeller.sectionList :=
          map_option (\<lambda>secs. secs[k := sc]) (ScrollyTeller.sectionList (this r))\<rparr>\<rparr>"

definition called :: "call \<Rightarrow> ('d, 'g) run \<Rightarrow> ('d, 'g) run" where
  "called c r = r\<lparr>trace := trace r @ [c]\<rparr>"

definition throw :: "error \<Rightarrow> ('d, 'g) run \<Rightarrow> ('d, 'g) run" where
  "throw e r = r\<lparr>thrown := Some e\<rparr>"

text \<open>Sequencing: nothing runs after an exception.\<close>

definition andThen :: "('d, 'g) run \<Rightarrow> (('d, 'g) run \<Rightarrow> ('d, 'g) run) \<Rightarrow> ('d, 'g) run" where
  "andThen r f = (if thrown r = None then f r else r)"

text \<open>\<^verbatim>\<open>forEach(this.sectionList, body)\<close>, the body given the position of the section.\<close>

fun forEach :: "nat list \<Rightarrow> (nat \<Rightarrow> ('d, 'g) run \<Rightarrow> ('d, 'g) run) \<Rightarrow> ('d, 'g) run \<Rightarrow> ('d, 'g) run" where
  "forEach [] body r = r"
| "forEach (k # ks) body r = andThen (body k r) (forEach ks body)"

definition forEachSection ::
  "(nat \<Rightarrow> ('d, 'g) run \<Rightarrow> ('d, 'g) run) \<Rightarrow> ('d, 'g) run \<Rightarrow> ('d, 'g) run" where
  "forEachSection body r = forEach [0 ..< length (sections r)] body r"

definition await_fetchNarration :: "('d, 'g) collaborators \<Rightarrow> ('d, 'g) run \<Rightarrow> ('d, 'g) run" where
  "await_fetchNarration env r =
     (let r1 = called Call_fetchNarration r in
      case fetchNarration env (ScrollyTeller.sectionList (this r1)) of
        Inl e \<Rightarrow> throw e r1
      | Inr secs \<Rightarrow> r1\<lparr>this := (this r1)\<lparr>ScrollyTeller.sectionList := secs\<rparr>\<rparr>)"

definition await_fetchDataAndProcessResults ::
  "('d, 'g) collaborators \<Rightarrow> ('d, 'g) run \<Rightarrow> ('d, 'g) run" where
  "await_fetchDataAndProcessResults env r =
     (let r1 = called Call_fetchDataAndProcessResults r in
      case fetchDataAndProcessResults env (ScrollyTeller.sectionList (this r1)) of
        Inl e \<Rightarrow> throw e r1
      | Inr secs \<Rightarrow> r1\<lparr>this := (this r1)\<lparr>ScrollyTeller.sectionList := secs\<rparr>\<rparr>)"

definition buildSection :: "('d, 'g) collaborators \<Rightarrow> nat \<Rightarrow> ('d, 'g) run \<Rightarrow> ('d, 'g) run" where
  "buildSection env k r =
     (let r1 = called (Call_buildSectionWithNarration k) r in
      case buildSectionWithNarration env (sections r1 ! k) of
        Inl e \<Rightarrow> throw e r1
      | Inr sc \<Rightarrow> setSection k sc r1)"

definition buildSections :: "('d, 'g) collaborators \<Rightarrow> ('d, 'g) run \<Rightarrow> ('d, 'g) run" where
  "buildSections env r = forEachSection (buildSection env) r"

text \<open>
  The body of the \<^verbatim>\<open>forEach\<close> in \<^verbatim>\<open>_buildScrollamaContainers\<close>. The fresh scroller is
  stored in the section first; \<^verbatim>\<open>names.sectionId\<close> throws a TypeError when the section
  has no \<^verbatim>\<open>cssNames\<close>.
\<close>

definition buildScrollamaContainer :: "nat \<Rightarrow> ('d, 'g) run \<Rightarrow> ('d, 'g) run" where
  "buildScrollamaContainer k r =
     (let sc = sections r ! k;
          r1 = setSection k (sc\<lparr>scroller := Some scrollama\<rparr>) r
      in case sectionConfig.cssNames sc of
           None \<Rightarrow> throw TypeError r1
         | Some names \<Rightarrow>
             let sectionId = cssNames.sectionId names (sectionIdentifier sc);
                 graphId = cssNames.graphId names (sectionIdentifier sc);
                 options = \<lparr>step = ''#'' @ sectionId @ '' .'' @ css_narrationBlock names,
                            container = ''#'' @ sectionId,
                            graphic = ''#'' @ graphId,
                            offset = 0.5,
                            progress = True\<rparr>;
                 handlers =
                   \<lparr>h_narration = narration sc,
                    h_graphId = graphId,
                    h_onScrollFunction =
                      (case onScrollFunction sc of None \<Rightarrow> noop | Some f \<Rightarrow> f),
                    h_onActivateNarrationFunction =
                      (case onActivateNarrationFunction sc of None \<Rightarrow> noop | Some f \<Rightarrow> f),
                    h_sectionConfig = k\<rparr>
             in setSection k (sc\<lparr>scroller := Some (Configured options handlers)\<rparr>)
                  (called (Call_scrollama_setup k) r1))"

definition buildScrollamaContainers :: "('d, 'g) run \<Rightarrow> ('d, 'g) run" where
  "buildScrollamaContainers r = forEachSection buildScrollamaContainer r"

text \<open>\<^verbatim>\<open>_graphIdForSection\<close>: a TypeError when the section has no \<^verbatim>\<open>cssNames\<close>.\<close>

definition graphIdForSection :: "('d, 'g) sectionConfig \<Rightarrow> error + string" where
  "graphIdForSection c =
     (case sectionConfig.cssNames c of
        None \<Rightarrow> Inl TypeError
      | Some names \<Rightarrow> Inr (cssNames.graphId names (sectionIdentifier c)))"

text \<open>
  The body of the \<^verbatim>\<open>forEach\<close> in \<^verbatim>\<open>_buildGraphs\<close>. Calling an undefined
  \<^verbatim>\<open>buildGraphFunction\<close> is a TypeError; the builder receives the section as it is at
  the call.
\<close>

definition buildGraph :: "('d, 'g) collaborators \<Rightarrow> nat \<Rightarrow> ('d, 'g) run \<Rightarrow> ('d, 'g) run" where
  "buildGraph env k r =
     (let c = sections r ! k in
      case graphIdForSection c of
        Inl e \<Rightarrow> throw e r
      | Inr gid \<Rightarrow>
          (case buildGraphFunction c of
             None \<Rightarrow> throw TypeError r
           | Some f \<Rightarrow>
               let r1 = called (Call_buildGraphFunction k) r in
               (case callBuildGraph env f gid c of
                  Inl e \<Rightarrow> throw e r1
                | Inr g \<Rightarrow> setSection k (c\<lparr>graph := g\<rparr>) r1)))"

definition buildGraphs :: "('d, 'g) collaborators \<Rightarrow> ('d, 'g) run \<Rightarrow> ('d, 'g) run" where
  "buildGraphs env r = forEachSection (buildGraph env) r"

text \<open>\<^verbatim>\<open>render()\<close> on an instance; the result holds the exception that rejects it, if any.\<close>

definition render :: "('d, 'g) collaborators \<Rightarrow> ('d, 'g) ScrollyTeller \<Rightarrow> ('d, 'g) run" where
  "render env st =
     andThen (andThen (andThen (andThen
       (await_fetchNarration env \<lparr>this = st, trace = [], thrown = None\<rparr>)
       (await_fetchDataAndProcessResults env))
       (buildSections env))
       buildScrollamaContainers)
       (buildGraphs env)"

text \<open>
  The position of a call in two orders of the phases: the order of the specification's
  control flow (graphs before scroll observers) and the order of the statements of
  \<^verbatim>\<open>render\<close>.
\<close>

fun specOrder :: "call \<Rightarrow> nat" where
  "specOrder Call_fetchNarration = 0"
| "specOrder Call_fetchDataAndProcessResults = 1"
| "specOrder (Call_buildSectionWithNarration k) = 2"
| "specOrder (Call_buildGraphFunction k) = 3"
| "specOrder (Call_scrollama_setup k) = 4"

fun codeOrder :: "call \<Rightarrow> nat" where
  "codeOrder Call_fetchNarration = 0"
| "codeOrder Call_fetchDataAndProcessResults = 1"
| "codeOrder (Call_buildSectionWithNarration k) = 2"
| "codeOrder (Call_scrollama_setup k) = 3"
| "codeOrder (Call_buildGraphFunction k) = 4"

text \<open>
  A notification from the scroller of the section at position \<open>k\<close>, after
  \<^verbatim>\<open>render\<close>: the handlers are those stored by \<^verbatim>\<open>_buildScrollamaContainers\<close>, and
  the section they pass on is the object they refer to. A scroller that was never set up
  has no handlers.
\<close>

definition notify ::
  "('d, 'g) sectionConfig list \<Rightarrow> nat \<Rightarrow> event \<Rightarrow> ('d, 'g) page \<Rightarrow> error + ('d, 'g) page" where
  "notify secs k ev pg =
     (if k < length secs then
        (case scroller (secs ! k) of
           Some (Configured options h) \<Rightarrow>
             if h_sectionConfig h < length secs
             then handle h (secs ! h_sectionConfig h) ev pg
             else Inr pg
         | _ \<Rightarrow> Inr pg)
      else Inr pg)"

text \<open>
  A sequence of notifications in which a step is entered only when no other step is
  active: the first argument is the step entered and not yet exited, if any.
\<close>

fun exitsBeforeEnters :: "element option \<Rightarrow> event list \<Rightarrow> bool" where
  "exitsBeforeEnters cur [] = True"
| "exitsBeforeEnters cur (StepEnter el i d # evs) =
     ((cur = None \<or> cur = Some el) \<and> exitsBeforeEnters (Some el) evs)"
| "exitsBeforeEnters cur (StepExit el # evs) =
     exitsBeforeEnters (if cur = Some el then None else cur) evs"
| "exitsBeforeEnters cur (StepProgress el i d p # evs) = exitsBeforeEnters cur evs"

section \<open>The section configuration of the demo (health and wealth of nations)\<close>

text \<open>
  The callbacks of this section destructure a \<^verbatim>\<open>state\<close> property from their argument
  besides the properties of \<open>args\<close>: the mapping decomposed from the trigger. It is
  \<open>None\<close> when the argument has no such property, and destructuring it then throws.
  The section's \<^verbatim>\<open>data\<close> is what \<^verbatim>\<open>reshapeDataFunction\<close> returned; the callbacks read
  its \<^verbatim>\<open>yearProgressScale\<close> only. Numbers computed by d3 and by the built-in
  \<^verbatim>\<open>Number\<close> and \<^verbatim>\<open>Math.floor\<close> are of an opaque type \<open>'n\<close>.
\<close>

record 'n demoData =
  yearProgressScale :: "(string \<Rightarrow> 'n) option"

record ('d, 'g) params = "('d, 'g) args" +
  state :: "(string \<rightharpoonup> string) option"

record htmlElement =
  offsetWidth :: int
  offsetHeight :: int

record ('d, 'g) resizeParams =
  graphElement :: "htmlElement option"
  graphId :: string
  sectionConfig :: "('d, 'g) sectionConfig"

text \<open>
  What the callbacks use from outside: the built-ins and the \<^verbatim>\<open>snippets\<close> object of
  components/codeSnippets.
\<close>

record 'n globals =
  Number :: "string option \<Rightarrow> 'n"
  Math_floor :: "'n \<Rightarrow> 'n"
  snippets :: "string \<rightharpoonup> string"

text \<open>What a callback does to the page and to the graph handle, in order.\<close>

datatype ('g, 'n) effect =
    Html string string
  | PrettyPrint
  | Attr string string nat
  | GraphRender 'g 'n nat
  | GraphResize 'g real real

text \<open>JavaScript truthiness of a string-valued property: undefined and \<^verbatim>\<open>''\<close> are falsy.\<close>

definition truthy :: "string option \<Rightarrow> bool" where
  "truthy v = (case v of None \<Rightarrow> False | Some s \<Rightarrow> s \<noteq> '''')"

text \<open>
  \<^verbatim>\<open>onScroll\<close>: \<^verbatim>\<open>graph.render({ year: ..., duration: 100 })\<close> when
  \<^verbatim>\<open>yearProgress\<close> is truthy. The result is the effects and the exception thrown, if
  any.
\<close>

definition onScroll ::
  "'n globals \<Rightarrow> ('n demoData option, 'g) params \<Rightarrow> ('g, 'n) effect list \<times> error option" where
  "onScroll js p =
     (case state p of
        None \<Rightarrow> ([], Some TypeError)
      | Some st \<Rightarrow>
          (case data (args.sectionConfig p) of
             None \<Rightarrow> ([], Some TypeError)
           | Some dat \<Rightarrow>
               (case st ''yearProgress'' of
                  None \<Rightarrow> ([], None)
                | Some yearProgress \<Rightarrow>
                    if yearProgress = '''' then ([], None)
                    else
                      (case graph (args.sectionConfig p) of
                         None \<Rightarrow> ([], Some TypeError)
                       | Some g \<Rightarrow>
                           (case yearProgressScale dat of
                              None \<Rightarrow> ([], Some TypeError)
                            | Some scale \<Rightarrow>
                                ([GraphRender g (Math_floor js (scale yearProgress)) 100],
                                 None))))))"

text \<open>
  \<^verbatim>\<open>onActivateNarration\<close>: the code snippet, the opacity of the graph, then
  \<^verbatim>\<open>graph.render({ year: Number(year), duration: 1000 })\<close>. A snippet name that
  \<^verbatim>\<open>snippets\<close> does not have is interpolated as \<^verbatim>\<open>undefined\<close>.
\<close>

definition onActivateNarration ::
  "'n globals \<Rightarrow> ('d, 'g) params \<Rightarrow> ('g, 'n) effect list \<times> error option" where
  \<open>onActivateNarration js p =
     (case state p of
        None \<Rightarrow> ([], Some TypeError)
      | Some st \<Rightarrow>
          let snippet = st ''snippet'';
              code = (case snippet of
                        None \<Rightarrow> ''''
                      | Some name \<Rightarrow>
                          if name = '''' then ''''
                          else ''<pre class="prettyprint lang-js">''
                               @ (case snippets js name of None \<Rightarrow> ''undefined'' | Some t \<Rightarrow> t)
                               @ ''</pre>'');
              effects =
                [Html (''#'' @ args.graphId p @ '' #codeSnippet'') code,
                 PrettyPrint,
                 Attr (''#'' @ args.graphId p @ '' svg'') ''opacity''
                   (if truthy snippet then 0 else 1)]
          in (case graph (args.sectionConfig p) of
                None \<Rightarrow> (effects, Some TypeError)
              | Some g \<Rightarrow> (effects @ [GraphRender g (Number js (st ''year'')) 1000], None)))\<close>

text \<open>
  JavaScript's numbers are binary64 floating-point numbers. A finite one is a mantissa
  and an exponent, standing for the number \<open>mantissa * 2 ^ exponent\<close>. An integer of
  the size of a DOM dimension converts exactly; the literal \<^verbatim>\<open>0.9\<close> is the binary64
  number nearest to nine tenths, \<open>8106479329266893 / 2 ^ 53\<close>. The product of two
  numbers is their exact product rounded to 53 significant bits, a tie going to the even
  mantissa. Infinities, NaN and subnormal numbers are left out: a product of a DOM
  dimension (a 32-bit integer) and \<^verbatim>\<open>0.9\<close> is none of them.
\<close>

record double =
  mantissa :: int
  exponent :: int

definition toReal :: "double \<Rightarrow> real" where
  "toReal d = real_of_int (mantissa d) * 2 powr real_of_int (exponent d)"

definition fromInt :: "int \<Rightarrow> double" where
  "fromInt w = \<lparr>mantissa = w, exponent = 0\<rparr>"

definition literal_0_9 :: double where
  "literal_0_9 = \<lparr>mantissa = 8106479329266893, exponent = - 53\<rparr>"

text \<open>A non-negative mantissa without its \<open>s\<close> lowest bits, rounded to nearest, ties to even.\<close>

definition roundTiesToEven :: "int \<Rightarrow> nat \<Rightarrow> int" where
  "roundTiesToEven m s =
     (let q = m div 2 ^ s; r = m mod 2 ^ s
      in if 2 * r > 2 ^ s then q + 1
         else if 2 * r = 2 ^ s \<and> odd q then q + 1
         else q)"

definition round53 :: "double \<Rightarrow> double" where
  "round53 d =
     (let n = bitlen \<bar>mantissa d\<bar>
      in if n \<le> 53 then d
         else \<lparr>mantissa = sgn (mantissa d) * roundTiesToEven \<bar>mantissa d\<bar> (nat (n - 53)),
               exponent = exponent d + (n - 53)\<rparr>)"

definition multiply :: "double \<Rightarrow> double \<Rightarrow> double" where
  "multiply a b =
     round53 \<lparr>mantissa = mantissa a * mantissa b, exponent = exponent a + exponent b\<rparr>"

text \<open>
  \<^verbatim>\<open>onResize\<close>: \<^verbatim>\<open>graph.resize\<close> with the binary64 products
  \<^verbatim>\<open>graphElement.offsetWidth * 0.9\<close> and \<^verbatim>\<open>graphElement.offsetHeight * 0.9\<close>, each
  passed on as the real number it is. \<^verbatim>\<open>offsetWidth\<close> and \<^verbatim>\<open>offsetHeight\<close> are
  integers.
\<close>

definition onResize :: "('d, 'g) resizeParams \<Rightarrow> ('g, 'n) effect list \<times> error option" where
  "onResize p =
     (case graph (resizeParams.sectionConfig p) of
        None \<Rightarrow> ([], Some TypeError)
      | Some g \<Rightarrow>
          (case graphElement p of
             None \<Rightarrow> ([], Some TypeError)
           | Some el \<Rightarrow>
               ([GraphResize g (toReal (multiply (fromInt (offsetWidth el)) literal_0_9))
                               (toReal (multiply (fromInt (offsetHeight el)) literal_0_9))],
                None)))"

text \<open>The \<^verbatim>\<open>duration\<close> of every \<^verbatim>\<open>graph.render\<close> among the effects.\<close>

fun durations :: "('g, 'n) effect list \<Rightarrow> nat list" where
  "durations [] = []"
| "durations (GraphRender g y d # es) = d # durations es"
| "durations (e # es) = durations es"

section \<open>Trigger decomposition\<close>

text \<open>
  Modelled from the spec: the parser behind \<^verbatim>\<open>convertTriggerToObject\<close> (it is in the
  utilities, not part of the sources at hand). The spec: "the string is split on a
  delimiter into key:value pairs; each pair is trimmed and assigned into the mapping;
  duplicate keys overwrite earlier ones (last write wins); malformed pairs (no
  delimiter) are dropped silently". Its example puts a space between pairs and a colon
  between key and value.
\<close>

fun splitOn :: "char \<Rightarrow> string \<Rightarrow> string list" where
  "splitOn c [] = [[]]"
| "splitOn c (x # xs) =
     (if x = c then [] # splitOn c xs
      else (case splitOn c xs of [] \<Rightarrow> [[x]] | w # ws \<Rightarrow> (x # w) # ws))"

definition trim :: "string \<Rightarrow> string" where
  "trim s = rev (dropWhile (\<lambda>c. c = CHR '' '') (rev (dropWhile (\<lambda>c. c = CHR '' '') s)))"

definition wellFormed :: "string \<Rightarrow> bool" where
  "wellFormed pair = (CHR '':'' \<in> set (trim pair))"

definition keyOf :: "string \<Rightarrow> string" where
  "keyOf pair = takeWhile (\<lambda>c. c \<noteq> CHR '':'') (trim pair)"

definition valueOf :: "string \<Rightarrow> string" where
  "valueOf pair = tl (dropWhile (\<lambda>c. c \<noteq> CHR '':'') (trim pair))"

definition assignPair :: "(string \<rightharpoonup> string) \<Rightarrow> string \<Rightarrow> (string \<rightharpoonup> string)" where
  "assignPair m pair = (if wellFormed pair then m(keyOf pair \<mapsto> valueOf pair) else m)"

definition assignPairs :: "string list \<Rightarrow> (string \<rightharpoonup> string)" where
  "assignPairs pairs = foldl assignPair Map.empty pairs"

definition convertTriggerToObject :: "string \<Rightarrow> (string \<rightharpoonup> string)" where
  "convertTriggerToObject t = assignPairs (splitOn CHR '' '' t)"

section \<open>A configuration for the examples\<close>

text \<open>
  One section with three narration rows, the last without a trigger; collaborators that
  succeed and leave the sections as they are; a page on which nothing is active.
\<close>

definition exampleNames :: cssNames where
  "exampleNames =
     \<lparr>constructor_name = ''CSSNames'', css_narrationBlock = ''narration'',
      sectionId = (\<lambda>s. ''section_'' @ (case s of None \<Rightarrow> ''undefined'' | Some x \<Rightarrow> x)),
      cssNames.graphId = (\<lambda>s. ''graph_'' @ (case s of None \<Rightarrow> ''undefined'' | Some x \<Rightarrow> x))\<rparr>"

definition exampleRows :: "narrationEntry list" where
  "exampleRows =
     [\<lparr>narrationEntry.trigger = Some ''year:1950''\<rparr>,
      \<lparr>narrationEntry.trigger = Some ''year:2008''\<rparr>,
      \<lparr>narrationEntry.trigger = None\<rparr>]"

definition exampleSection :: "(unit, nat) sectionConfig" where
  "exampleSection =
     \<lparr>sectionIdentifier = Some ''A'', narration = Some (Array exampleRows), data = (),
      buildGraphFunction = Some (UserFunction ''buildGraph''),
      onScrollFunction = Some (UserFunction ''onScroll''),
      onActivateNarrationFunction = Some (UserFunction ''onActivateNarration''),
      showSpacers = None, useDefaultGraphCSS = None,
      sectionConfig.appContainerId = Some ''app'',
      sectionConfig.cssNames = Some exampleNames,
      graph = None, scroller = None\<rparr>"

definition exampleInstance :: "(unit, nat) ScrollyTeller" where
  "exampleInstance =
     \<lparr>ScrollyTeller.appContainerId = Some ''app'',
      ScrollyTeller.sectionList = Some [exampleSection],
      ScrollyTeller.cssNames = exampleNames\<rparr>"

definition exampleRun :: "(unit, nat) run" where
  "exampleRun = \<lparr>this = exampleInstance, trace = [], thrown = None\<rparr>"

definition exampleCollaborators :: "(unit, nat) collaborators" where
  "exampleCollaborators =
     \<lparr>fetchNarration = Inr, fetchDataAndProcessResults = Inr,
      buildSectionWithNarration = Inr,
      callBuildGraph = (\<lambda>f gid c. Inr (Some 1))\<rparr>"

definition exampleHandlers :: stepHandlers where
  "exampleHandlers =
     \<lparr>h_narration = Some (Array exampleRows), h_graphId = ''graph_A'',
      h_onScrollFunction = UserFunction ''onScroll'',
      h_onActivateNarrationFunction = UserFunction ''onActivateNarration'',
      h_sectionConfig = 0\<rparr>"

definition emptyPage :: "(unit, nat) page" where
  "emptyPage = \<lparr>classes = (\<lambda>el. {}), calls = []\<rparr>"

text \<open>
  The demo section after \<^verbatim>\<open>render\<close>, with a graph handle and reshaped data, and
  stand-ins for the built-ins: numbers are integers, the scale maps the one progress
  string used below to a year.
\<close>

definition demoSection :: "(int demoData option, nat) sectionConfig" where
  "demoSection =
     \<lparr>sectionIdentifier = Some ''healthAndWealth'', narration = Some (Array exampleRows),
      data = Some \<lparr>yearProgressScale = Some (\<lambda>s. if s = ''0.5'' then 1979 else 1950)\<rparr>,
      buildGraphFunction = Some (UserFunction ''buildGraph''),
      onScrollFunction = Some (UserFunction ''onScroll''),
      onActivateNarrationFunction = Some (UserFunction ''onActivateNarration''),
      showSpacers = Some True, useDefaultGraphCSS = Some True,
      sectionConfig.appContainerId = Some ''app'',
      sectionConfig.cssNames = Some exampleNames,
      graph = Some 1, scroller = None\<rparr>"

definition demoGlobals :: "int globals" where
  "demoGlobals =
     \<lparr>Number = (\<lambda>s. if s = Some ''1962'' then 1962 else 0),
      Math_floor = (\<lambda>n. n),
      snippets = Map.empty\<rparr>"

definition demoParams :: "(string \<rightharpoonup> string) \<Rightarrow> (int demoData option, nat) params" where
  "demoParams st =
     \<lparr>index = 0, progress = 0, element = 7, trigger = ''year:1962'', direction = Down,
      args.graphId = ''graph_healthAndWealth'', args.sectionConfig = demoSection,
      state = Some st\<rparr>"

section \<open>Properties of the step handlers\<close>

lemma classes_classed:
  "classes (classed el name v pg) =
     (classes pg)(el := (if v then insert name (classes pg el) else classes pg el - {name}))"
  by (simp add: classed_def)

lemma calls_classed: "calls (classed el name v pg) = calls pg"
  by (simp add: classed_def)

lemma classes_invoke: "classes (invoke f a pg) = classes pg"
  by (simp add: invoke_def)

lemma calls_invoke: "calls (invoke f a pg) = calls pg @ [(f, a)]"
  by (simp add: invoke_def)

lemma sections_setSection: "sections (setSection k sc r) = (sections r)[k := sc]"
  by (simp add: sections_def setSection_def split: option.splits)

lemma sections_called: "sections (called c r) = sections r"
  by (simp add: sections_def called_def)

lemma sections_throw: "sections (throw e r) = sections r"
  by (simp add: sections_def throw_def)

lemma example_sections: "sections exampleRun = [exampleSection]"
  by (simp add: sections_def exampleRun_def exampleInstance_def)

text \<open>
  What \<^verbatim>\<open>_buildScrollamaContainers\<close> stores for a section that has its
  \<^verbatim>\<open>cssNames\<close>: the selectors, and handlers closed over the section's narration, its
  graph id, its two callbacks (or \<open>noop\<close>) and the section object itself.
\<close>

lemma buildScrollamaContainer_scroller:
  assumes "k < length (sections r)"
    and "sectionConfig.cssNames (sections r ! k) = Some names"
  shows "scroller (sections (buildScrollamaContainer k r) ! k) =
    Some (Configured
      \<lparr>step = ''#'' @ cssNames.sectionId names (sectionIdentifier (sections r ! k)) @ '' .''
                @ css_narrationBlock names,
       container = ''#'' @ cssNames.sectionId names (sectionIdentifier (sections r ! k)),
       graphic = ''#'' @ cssNames.graphId names (sectionIdentifier (sections r ! k)),
       offset = 0.5, progress = True\<rparr>
      \<lparr>h_narration = narration (sections r ! k),
       h_graphId = cssNames.graphId names (sectionIdentifier (sections r ! k)),
       h_onScrollFunction =
         (case onScrollFunction (sections r ! k) of None \<Rightarrow> noop | Some f \<Rightarrow> f),
       h_onActivateNarrationFunction =
         (case onActivateNarrationFunction (sections r ! k) of None \<Rightarrow> noop | Some f \<Rightarrow> f),
       h_sectionConfig = k\<rparr>)"
  using assms
  by (simp add: buildScrollamaContainer_def Let_def sections_setSection sections_called)

lemma example_length_after_setup:
  "(0::nat) < length (sections (buildScrollamaContainer 0 exampleRun))"
  by (simp add: buildScrollamaContainer_def Let_def sections_setSection sections_called
      sections_throw example_sections split: option.splits)

lemma example_names: "sectionConfig.cssNames (sections exampleRun ! 0) = Some exampleNames"
  by (simp add: example_sections exampleSection_def)

lemma example_narration: "narration (sections exampleRun ! 0) = Some (Array exampleRows)"
  by (simp add: example_sections exampleSection_def)

subsection \<open>StepEnter\<close>

text \<open>
  C3. Take the section at position \<open>k\<close> whose scroller was set up by
  \<^verbatim>\<open>_buildScrollamaContainers\<close> when its narration was the array \<open>rows\<close>, and any
  later state \<open>secs\<close> of the section list in which that scroller is still the
  section's. A StepEnter notification with element \<open>el\<close>, index \<open>i\<close> (a row of the
  narration) and direction \<open>d\<close> succeeds, leaves \<open>el\<close> active, and adds exactly one
  call: to the section's \<^verbatim>\<open>onActivateNarrationFunction\<close> (\<open>noop\<close> if it has none),
  with index \<open>i\<close>, progress 0, the element, the trigger of row \<open>i\<close> (the empty
  string if the row has none), direction \<open>d\<close>, the section's graph id and the
  section object.
\<close>

theorem stepEnter_invokes_onActivateNarrationFunction:
  assumes "k < length (sections r)"
    and "sectionConfig.cssNames (sections r ! k) = Some names"
    and "narration (sections r ! k) = Some (Array rows)"
    and "i < length rows"
    and "k < length secs"
    and "scroller (secs ! k) = scroller (sections (buildScrollamaContainer k r) ! k)"
  shows "\<exists>pg'. notify secs k (StepEnter el i d) pg = Inr pg'
           \<and> active pg' el
           \<and> calls pg' = calls pg @
               [(case onActivateNarrationFunction (sections r ! k) of
                   None \<Rightarrow> noop | Some f \<Rightarrow> f,
                 \<lparr>index = i, progress = 0, element = el,
                  trigger = (case narrationEntry.trigger (rows ! i) of
                               None \<Rightarrow> '''' | Some t \<Rightarrow> t),
                  direction = d,
                  graphId = cssNames.graphId names (sectionIdentifier (sections r ! k)),
                  sectionConfig = secs ! k\<rparr>)]"
  using assms
  by (simp add: notify_def buildScrollamaContainer_scroller onStepEnter_def
      active_def classes_classed calls_classed classes_invoke calls_invoke)

theorem stepEnter_invokes_onActivateNarrationFunction_witness:
  "(0::nat) < length (sections exampleRun)
   \<and> sectionConfig.cssNames (sections exampleRun ! 0) = Some exampleNames
   \<and> narration (sections exampleRun ! 0) = Some (Array exampleRows)
   \<and> (1::nat) < length exampleRows
   \<and> (\<exists>pg'. notify (sections (buildScrollamaContainer 0 exampleRun)) 0
                 (StepEnter 7 1 Up) emptyPage = Inr pg'
         \<and> active pg' 7
         \<and> calls pg' =
             [(UserFunction ''onActivateNarration'',
               \<lparr>index = 1, progress = 0, element = 7, trigger = ''year:2008'', direction = Up,
                graphId = ''graph_A'',
                sectionConfig = sections (buildScrollamaContainer 0 exampleRun) ! 0\<rparr>)])"
proof -
  have len: "(0::nat) < length (sections exampleRun)"
    by (simp add: example_sections)
  have i: "(1::nat) < length exampleRows"
    by (simp add: exampleRows_def)
  from stepEnter_invokes_onActivateNarrationFunction
         [OF len example_names example_narration i example_length_after_setup refl,
          of 7 Up emptyPage]
  show ?thesis
    using len example_names example_narration i
    by (simp add: example_sections exampleSection_def exampleNames_def exampleRows_def
        emptyPage_def)
qed

subsection \<open>StepProgress\<close>

text \<open>
  C4. For the same section and any later state of the section list, a StepProgress
  notification with element \<open>el\<close>, index \<open>i\<close> (a row of the narration), direction
  \<open>d\<close> and progress \<open>p\<close> succeeds and adds exactly one call: to the section's
  \<^verbatim>\<open>onScrollFunction\<close> (\<open>noop\<close> if it has none), with index \<open>i\<close>, the element, the
  trigger of row \<open>i\<close>, direction \<open>d\<close>, the section's graph id, the section object,
  and progress \<open>p\<close> itself, whatever real number it is: nothing clamps it to the unit
  interval or compares it with an earlier value. No class list changes.
\<close>

theorem stepProgress_invokes_onScrollFunction:
  assumes "k < length (sections r)"
    and "sectionConfig.cssNames (sections r ! k) = Some names"
    and "narration (sections r ! k) = Some (Array rows)"
    and "i < length rows"
    and "k < length secs"
    and "scroller (secs ! k) = scroller (sections (buildScrollamaContainer k r) ! k)"
  shows "\<exists>pg'. notify secs k (StepProgress el i d p) pg = Inr pg'
           \<and> classes pg' = classes pg
           \<and> calls pg' = calls pg @
               [(case onScrollFunction (sections r ! k) of None \<Rightarrow> noop | Some f \<Rightarrow> f,
                 \<lparr>index = i, progress = p, element = el,
                  trigger = (case narrationEntry.trigger (rows ! i) of
                               None \<Rightarrow> '''' | Some t \<Rightarrow> t),
                  direction = d,
                  graphId = cssNames.graphId names (sectionIdentifier (sections r ! k)),
                  sectionConfig = secs ! k\<rparr>)]"
  using assms
  by (simp add: notify_def buildScrollamaContainer_scroller onStepProgress_def
      classes_invoke calls_invoke)

theorem stepProgress_invokes_onScrollFunction_witness:
  "(0::nat) < length (sections exampleRun)
   \<and> sectionConfig.cssNames (sections exampleRun ! 0) = Some exampleNames
   \<and> narration (sections exampleRun ! 0) = Some (Array exampleRows)
   \<and> (0::nat) < length exampleRows
   \<and> (\<exists>pg'. notify (sections (buildScrollamaContainer 0 exampleRun)) 0
                 (StepProgress 7 0 Down (3 / 2)) emptyPage = Inr pg'
         \<and> classes pg' = classes emptyPage
         \<and> calls pg' =
             [(UserFunction ''onScroll'',
               \<lparr>index = 0, progress = 3 / 2, element = 7, trigger = ''year:1950'',
                direction = Down, graphId = ''graph_A'',
                sectionConfig = sections (buildScrollamaContainer 0 exampleRun) ! 0\<rparr>)])"
proof -
  have len: "(0::nat) < length (sections exampleRun)"
    by (simp add: example_sections)
  have i: "(0::nat) < length exampleRows"
    by (simp add: exampleRows_def)
  from stepProgress_invokes_onScrollFunction
         [OF len example_names example_narration i example_length_after_setup refl,
          of 7 Down "3 / 2" emptyPage]
  show ?thesis
    using len example_names example_narration i
    by (simp add: example_sections exampleSection_def exampleNames_def exampleRows_def
        emptyPage_def)
qed

subsection \<open>A row without a trigger\<close>



subsection \<open>StepExit\<close>

text \<open>
  C8. Whatever the page and whatever went before, the StepExit handler succeeds and the
  page it leaves differs from the one it found in one place: the class list of the
  exited element has lost \<^verbatim>\<open>active\<close>. The element is no longer active, the list of
  calls to callbacks is unchanged (neither \<^verbatim>\<open>onScrollFunction\<close> nor
  \<^verbatim>\<open>onActivateNarrationFunction\<close> is called), and the handler has no access to the
  section objects.
\<close>

theorem stepExit_only_removes_active:
  "handle h sc (StepExit el) pg
     = Inr (pg\<lparr>classes := (classes pg)(el := classes pg el - {''active''})\<rparr>)
   \<and> (\<exists>pg'. handle h sc (StepExit el) pg = Inr pg'
         \<and> \<not> active pg' el
         \<and> calls pg' = calls pg
         \<and> classes pg' = (classes pg)(el := classes pg el - {''active''}))"
  by (simp add: onStepExit_def classed_def active_def)

subsection \<open>How many elements are active\<close>

lemma active_classed:
  "active (classed el name v pg) e =
     (if e = el \<and> name = ''active'' then v else active pg e)"
  by (auto simp: active_def classed_def)

lemma active_invoke: "active (invoke f a pg) e = active pg e"
  by (simp add: active_def invoke_def)

lemma onStepEnter_active:
  "onStepEnter h sc el i d q = Inr q' \<Longrightarrow> active q' e = (e = el \<or> active q e)"
  by (auto simp: onStepEnter_def active_invoke active_classed split: sum.splits if_splits)

lemma active_deliver_StepEnter:
  "active (deliver h sc pg (StepEnter el i d)) e \<Longrightarrow> e = el \<or> active pg e"
  by (auto simp: deliver_def onStepEnter_def active_invoke active_classed
      split: sum.splits if_splits)

lemma active_deliver_StepExit:
  "active (deliver h sc pg (StepExit el)) e = (e \<noteq> el \<and> active pg e)"
  by (auto simp: deliver_def onStepExit_def active_classed)

lemma active_deliver_StepProgress:
  "active (deliver h sc pg (StepProgress el i d p)) e = active pg e"
  by (auto simp: deliver_def onStepProgress_def active_invoke split: sum.splits)

lemma deliverAll_Cons:
  "deliverAll h sc pg (ev # evs) = deliverAll h sc (deliver h sc pg ev) evs"
  by (simp add: deliverAll_def)

lemma deliverAll_Nil: "deliverAll h sc pg [] = pg"
  by (simp add: deliverAll_def)

text \<open>
  The invariant behind exclusivity: while steps are entered only after the active one
  was exited, every active element is the step last entered and not yet exited.
\<close>

lemma exclusive_invariant:
  "exitsBeforeEnters cur evs \<Longrightarrow> (\<forall>e. active pg e \<longrightarrow> cur = Some e) \<Longrightarrow>
   \<exists>cur'. \<forall>e. active (deliverAll h sc pg (take n evs)) e \<longrightarrow> cur' = Some e"
proof (induction evs arbitrary: cur pg n)
  case Nil
  then show ?case by (auto simp: deliverAll_Nil)
next
  case (Cons ev evs)
  show ?case
  proof (cases n)
    case 0
    with Cons.prems show ?thesis by (auto simp: deliverAll_Nil)
  next
    case (Suc m)
    show ?thesis
    proof (cases ev)
      case (StepEnter el i d)
      with Cons.prems have rest: "exitsBeforeEnters (Some el) evs"
        and cur: "cur = None \<or> cur = Some el"
        by auto
      have "\<forall>e. active (deliver h sc pg ev) e \<longrightarrow> Some el = Some e"
        using Cons.prems(2) cur StepEnter by (auto dest: active_deliver_StepEnter)
      from Cons.IH [OF rest this] show ?thesis
        by (simp add: Suc deliverAll_Cons)
    next
      case (StepExit el)
      with Cons.prems have rest: "exitsBeforeEnters (if cur = Some el then None else cur) evs"
        by auto
      have "\<forall>e. active (deliver h sc pg ev) e \<longrightarrow>
                 (if cur = Some el then None else cur) = Some e"
        using Cons.prems(2) StepExit by (auto simp: active_deliver_StepExit)
      from Cons.IH [OF rest this] show ?thesis
        by (simp add: Suc deliverAll_Cons)
    next
      case (StepProgress el i d p)
      with Cons.prems have rest: "exitsBeforeEnters cur evs"
        by auto
      have "\<forall>e. active (deliver h sc pg ev) e \<longrightarrow> cur = Some e"
        using Cons.prems(2) StepProgress by (auto simp: active_deliver_StepProgress)
      from Cons.IH [OF rest this] show ?thesis
        by (simp add: Suc deliverAll_Cons)
    qed
  qed
qed

text \<open>
  C2, as the code has it. The StepEnter handler marks the entered element active and
  leaves the flag of every other element as it was: it deactivates nothing. So
  exclusivity rests on the order of the notifications: on a page where nothing is
  active, after every prefix of a sequence of notifications in which each StepEnter
  arrives when no other element is active (the active step was exited first), at most
  one element is active.
\<close>

theorem at_most_one_active_when_exits_precede_enters:
  assumes "exitsBeforeEnters None evs"
    and "\<forall>e. \<not> active pg e"
  shows "(\<forall>n. \<exists>x. {e. active (deliverAll h sc pg (take n evs)) e} \<subseteq> {x})
       \<and> (\<forall>q q' el i d. onStepEnter h sc el i d q = Inr q' \<longrightarrow>
             {e. active q' e} = insert el {e. active q e})"
proof -
  have "\<exists>x. {e. active (deliverAll h sc pg (take n evs)) e} \<subseteq> {x}" for n
  proof -
    from assms(2) have "\<forall>e. active pg e \<longrightarrow> None = Some e"
      by simp
    from exclusive_invariant [OF assms(1) this, of h sc n]
    obtain cur' where "\<forall>e. active (deliverAll h sc pg (take n evs)) e \<longrightarrow> cur' = Some e" ..
    then have "{e. active (deliverAll h sc pg (take n evs)) e} \<subseteq> {the cur'}"
      by auto
    then show ?thesis ..
  qed
  moreover have "{e. active q' e} = insert el {e. active q e}"
    if "onStepEnter h sc el i d q = Inr q'" for q q' :: "('a, 'b) page" and el i d
    using onStepEnter_active [OF that] by auto
  ultimately show ?thesis
    by blast
qed

theorem at_most_one_active_when_exits_precede_enters_witness:
  "exitsBeforeEnters None
     [StepEnter 10 0 Down, StepProgress 10 0 Down (1 / 2), StepExit 10, StepEnter 11 1 Down]
   \<and> (\<forall>e. \<not> active emptyPage e)
   \<and> (\<forall>n. \<exists>x.
         {e. active (deliverAll exampleHandlers exampleSection emptyPage
                       (take n [StepEnter 10 0 Down, StepProgress 10 0 Down (1 / 2),
                                StepExit 10, StepEnter 11 1 Down])) e} \<subseteq> {x})
   \<and> active (deliverAll exampleHandlers exampleSection emptyPage
               [StepEnter 10 0 Down, StepProgress 10 0 Down (1 / 2), StepExit 10,
                StepEnter 11 1 Down]) 11"
proof -
  have order: "exitsBeforeEnters None
     [StepEnter 10 0 Down, StepProgress 10 0 Down (1 / 2), StepExit 10, StepEnter 11 1 Down]"
    by simp
  have idle: "\<forall>e. \<not> active emptyPage e"
    by (simp add: active_def emptyPage_def)
  have last: "active (deliverAll exampleHandlers exampleSection emptyPage
               [StepEnter 10 0 Down, StepProgress 10 0 Down (1 / 2), StepExit 10,
                StepEnter 11 1 Down]) 11"
    by (simp add: deliverAll_def deliver_def onStepEnter_def onStepProgress_def onStepExit_def
        exampleHandlers_def exampleRows_def active_invoke active_classed)
  from at_most_one_active_when_exits_precede_enters
         [OF order idle, of exampleHandlers exampleSection]
  show ?thesis
    using order idle last by blast
qed

text \<open>
  The claim as the specification words it fails: two steps entered one after the other,
  with no exit between them, are both active.
\<close>

theorem two_enters_both_active_counterexample:
  "active (deliverAll exampleHandlers exampleSection emptyPage
             [StepEnter 10 0 Down, StepEnter 11 1 Down]) 10
   \<and> active (deliverAll exampleHandlers exampleSection emptyPage
             [StepEnter 10 0 Down, StepEnter 11 1 Down]) 11
   \<and> (10::nat) \<noteq> 11"
  by (simp add: deliverAll_def deliver_def onStepEnter_def exampleHandlers_def exampleRows_def
      active_invoke active_classed)

section \<open>Properties of the constructor\<close>

lemma valid_config_constructed:
  assumes "validateScrollyTellerConfig c = None"
  shows "\<exists>st. constructor new_CSSNames c
                = (Inr st, c\<lparr>config.sectionList := ScrollyTeller.sectionList st\<rparr>)"
  using assms by (simp add: constructor_def Let_def)

text \<open>
  C7. A configuration with a required field missing (the container id, the section list,
  a section's identifier or narration) or with a section identifier that occurs twice
  makes the constructor throw ConfigValidationError, and the configuration object is
  left exactly as it was passed: validation is the first statement, so no section has
  been written. The exception leaves the caller without an instance, so \<^verbatim>\<open>render\<close>,
  which alone resolves narration and data, cannot have started.
\<close>

theorem invalid_config_throws_before_any_write:
  assumes "config.appContainerId c = None \<or> config.sectionList c = None
           \<or> (\<exists>secs. config.sectionList c = Some secs
                 \<and> ((\<exists>s\<in>set secs. sectionIdentifier s = None \<or> narration s = None)
                     \<or> \<not> distinct (map sectionIdentifier secs)))"
  shows "constructor new_CSSNames c = (Inl ConfigValidationError, c)"
proof -
  from assms have "validateScrollyTellerConfig c = Some ConfigValidationError"
    by (fastforce simp: validateScrollyTellerConfig_def list_ex_iff split: option.splits)
  then show ?thesis
    by (simp add: constructor_def)
qed

theorem invalid_config_throws_before_any_write_witness:
  "\<not> distinct (map sectionIdentifier [exampleSection, exampleSection])
   \<and> constructor exampleNames
       \<lparr>config.appContainerId = Some ''app'',
        config.sectionList = Some [exampleSection, exampleSection],
        config.cssNames = None\<rparr>
     = (Inl ConfigValidationError,
        \<lparr>config.appContainerId = Some ''app'',
         config.sectionList = Some [exampleSection, exampleSection],
         config.cssNames = None\<rparr>)"
proof -
  let ?c = "\<lparr>config.appContainerId = Some ''app'',
             config.sectionList = Some [exampleSection, exampleSection],
             config.cssNames = None\<rparr>"
  have dup: "\<not> distinct (map sectionIdentifier [exampleSection, exampleSection])"
    by simp
  then have "config.appContainerId ?c = None \<or> config.sectionList ?c = None
           \<or> (\<exists>secs. config.sectionList ?c = Some secs
                 \<and> ((\<exists>s\<in>set secs. sectionIdentifier s = None \<or> narration s = None)
                     \<or> \<not> distinct (map sectionIdentifier secs)))"
    by simp
  from invalid_config_throws_before_any_write [OF this, of exampleNames]
  show ?thesis
    using dup by simp
qed

section \<open>Properties of \<^verbatim>\<open>render\<close>\<close>

lemma trace_setSection: "trace (setSection k sc r) = trace r"
  by (simp add: setSection_def)
lemma trace_called: "trace (called c r) = trace r @ [c]"
  by (simp add: called_def)
lemma trace_throw: "trace (throw e r) = trace r"
  by (simp add: throw_def)
lemma thrown_setSection: "thrown (setSection k sc r) = thrown r"
  by (simp add: setSection_def)
lemma thrown_called: "thrown (called c r) = thrown r"
  by (simp add: called_def)
lemma thrown_throw: "thrown (throw e r) = Some e"
  by (simp add: throw_def)

lemmas run_simps = sections_setSection sections_called sections_throw trace_setSection
  trace_called trace_throw thrown_setSection thrown_called thrown_throw

lemma andThen_success:
  "thrown (andThen r f) = None \<Longrightarrow> thrown r = None \<and> andThen r f = f r"
  by (simp add: andThen_def split: if_splits)

text \<open>The body of each loop makes at most one call, and makes it when it does not throw.\<close>

lemma buildSection_trace:
  "trace (buildSection env k r) = trace r @ [Call_buildSectionWithNarration k]"
  by (simp add: buildSection_def Let_def run_simps split: sum.splits)

lemma buildSection_length: "length (sections (buildSection env k r)) = length (sections r)"
  by (simp add: buildSection_def Let_def run_simps split: sum.splits)

lemma buildScrollamaContainer_trace_cases:
  "trace (buildScrollamaContainer k r) = trace r
   \<or> trace (buildScrollamaContainer k r) = trace r @ [Call_scrollama_setup k]"
  by (simp add: buildScrollamaContainer_def Let_def run_simps split: option.splits)

lemma buildScrollamaContainer_trace_success:
  "thrown (buildScrollamaContainer k r) = None \<Longrightarrow>
   trace (buildScrollamaContainer k r) = trace r @ [Call_scrollama_setup k]"
  by (simp add: buildScrollamaContainer_def Let_def run_simps split: option.splits)

lemma buildScrollamaContainer_length:
  "length (sections (buildScrollamaContainer k r)) = length (sections r)"
  by (simp add: buildScrollamaContainer_def Let_def run_simps split: option.splits)

lemma buildGraph_trace_cases:
  "trace (buildGraph env k r) = trace r
   \<or> trace (buildGraph env k r) = trace r @ [Call_buildGraphFunction k]"
  by (simp add: buildGraph_def Let_def run_simps split: option.splits sum.splits)

lemma buildGraph_trace_success:
  "thrown (buildGraph env k r) = None \<Longrightarrow>
   trace (buildGraph env k r) = trace r @ [Call_buildGraphFunction k]"
  by (simp add: buildGraph_def Let_def run_simps split: option.splits sum.splits)

lemma buildGraph_length: "length (sections (buildGraph env k r)) = length (sections r)"
  by (simp add: buildGraph_def Let_def run_simps split: option.splits sum.splits)

text \<open>The loops.\<close>

lemma forEach_length:
  assumes "\<And>k r. length (sections (body k r)) = length (sections r)"
  shows "length (sections (forEach ks body r)) = length (sections r)"
  by (induction ks arbitrary: r) (simp_all add: andThen_def assms)

lemma forEach_trace_success:
  assumes "\<And>k r. thrown (body k r) = None \<Longrightarrow> trace (body k r) = trace r @ [c k]"
  shows "thrown (forEach ks body r) = None \<Longrightarrow> trace (forEach ks body r) = trace r @ map c ks"
proof (induction ks arbitrary: r)
  case Nil
  then show ?case by simp
next
  case (Cons k ks)
  from Cons.prems have ok: "thrown (body k r) = None"
    by (simp add: andThen_def split: if_splits)
  with Cons.prems have "thrown (forEach ks body (body k r)) = None"
    by (simp add: andThen_def)
  from Cons.IH [OF this] show ?case
    by (simp add: andThen_def ok assms [OF ok])
qed

lemma forEach_trace_rank:
  assumes "\<And>k r. trace (body k r) = trace r \<or> trace (body k r) = trace r @ [c k]"
  shows "\<exists>es. trace (forEach ks body r) = trace r @ es \<and> set es \<subseteq> range c"
proof (induction ks arbitrary: r)
  case Nil
  then show ?case by simp
next
  case (Cons k ks)
  from assms [of k r] obtain es0 where es0: "trace (body k r) = trace r @ es0" "set es0 \<subseteq> range c"
    by (cases "trace (body k r) = trace r") auto
  show ?case
  proof (cases "thrown (body k r) = None")
    case True
    from Cons.IH [of "body k r"] obtain es where
      "trace (forEach ks body (body k r)) = trace (body k r) @ es" "set es \<subseteq> range c"
      by blast
    with es0 True show ?thesis
      by (intro exI [of _ "es0 @ es"]) (simp add: andThen_def)
  next
    case False
    with es0 show ?thesis
      by (intro exI [of _ es0]) (auto simp: andThen_def)
  qed
qed

text \<open>The five phases of \<^verbatim>\<open>render\<close>.\<close>

lemma await_fetchNarration_trace:
  "trace (await_fetchNarration env r) = trace r @ [Call_fetchNarration]"
  by (simp add: await_fetchNarration_def Let_def run_simps called_def split: sum.splits)

lemma await_fetchDataAndProcessResults_trace:
  "trace (await_fetchDataAndProcessResults env r) = trace r @ [Call_fetchDataAndProcessResults]"
  by (simp add: await_fetchDataAndProcessResults_def Let_def run_simps called_def split: sum.splits)

lemma buildSections_trace_success:
  "thrown (buildSections env r) = None \<Longrightarrow>
   trace (buildSections env r)
     = trace r @ map Call_buildSectionWithNarration [0 ..< length (sections r)]"
  unfolding buildSections_def forEachSection_def
  by (rule forEach_trace_success) (rule buildSection_trace)

lemma buildScrollamaContainers_trace_success:
  "thrown (buildScrollamaContainers r) = None \<Longrightarrow>
   trace (buildScrollamaContainers r)
     = trace r @ map Call_scrollama_setup [0 ..< length (sections r)]"
  unfolding buildScrollamaContainers_def forEachSection_def
  by (rule forEach_trace_success) (rule buildScrollamaContainer_trace_success)

lemma buildGraphs_trace_success:
  "thrown (buildGraphs env r) = None \<Longrightarrow>
   trace (buildGraphs env r)
     = trace r @ map Call_buildGraphFunction [0 ..< length (sections r)]"
  unfolding buildGraphs_def forEachSection_def
  by (rule forEach_trace_success) (rule buildGraph_trace_success)

lemma buildSections_length: "length (sections (buildSections env r)) = length (sections r)"
  unfolding buildSections_def forEachSection_def
  by (rule forEach_length) (rule buildSection_length)

lemma buildScrollamaContainers_length:
  "length (sections (buildScrollamaContainers r)) = length (sections r)"
  unfolding buildScrollamaContainers_def forEachSection_def
  by (rule forEach_length) (rule buildScrollamaContainer_length)

lemma buildGraphs_length: "length (sections (buildGraphs env r)) = length (sections r)"
  unfolding buildGraphs_def forEachSection_def
  by (rule forEach_length) (rule buildGraph_length)

lemma buildSections_trace_rank:
  "\<exists>es. trace (buildSections env r) = trace r @ es \<and> (\<forall>c\<in>set es. codeOrder c = 2)"
proof -
  have "\<exists>es. trace (buildSections env r) = trace r @ es
              \<and> set es \<subseteq> range Call_buildSectionWithNarration"
    unfolding buildSections_def forEachSection_def
    by (rule forEach_trace_rank) (simp add: buildSection_trace)
  then obtain es where "trace (buildSections env r) = trace r @ es"
    "set es \<subseteq> range Call_buildSectionWithNarration"
    by blast
  then show ?thesis by (intro exI [of _ es]) auto
qed

lemma buildScrollamaContainers_trace_rank:
  "\<exists>es. trace (buildScrollamaContainers r) = trace r @ es \<and> (\<forall>c\<in>set es. codeOrder c = 3)"
proof -
  have "\<exists>es. trace (buildScrollamaContainers r) = trace r @ es
              \<and> set es \<subseteq> range Call_scrollama_setup"
    unfolding buildScrollamaContainers_def forEachSection_def
    by (rule forEach_trace_rank) (rule buildScrollamaContainer_trace_cases)
  then obtain es where "trace (buildScrollamaContainers r) = trace r @ es"
    "set es \<subseteq> range Call_scrollama_setup"
    by blast
  then show ?thesis by (intro exI [of _ es]) auto
qed

lemma buildGraphs_trace_rank:
  "\<exists>es. trace (buildGraphs env r) = trace r @ es \<and> (\<forall>c\<in>set es. codeOrder c = 4)"
proof -
  have "\<exists>es. trace (buildGraphs env r) = trace r @ es
              \<and> set es \<subseteq> range Call_buildGraphFunction"
    unfolding buildGraphs_def forEachSection_def
    by (rule forEach_trace_rank) (rule buildGraph_trace_cases)
  then obtain es where "trace (buildGraphs env r) = trace r @ es"
    "set es \<subseteq> range Call_buildGraphFunction"
    by blast
  then show ?thesis by (intro exI [of _ es]) auto
qed

lemma andThen_trace_rank:
  assumes "\<And>r. \<exists>es. trace (f r) = trace r @ es \<and> (\<forall>c\<in>set es. codeOrder c = m)"
  shows "\<exists>es. trace (andThen r f) = trace r @ es \<and> (\<forall>c\<in>set es. codeOrder c = m)"
  using assms [of r] by (auto simp: andThen_def)

lemma sorted_same_rank:
  "\<forall>c\<in>set es. codeOrder c = m \<Longrightarrow> sorted (map codeOrder es)"
  by (induction es) auto

lemma render_sorted: "sorted (map codeOrder (trace (render env st)))"
proof -
  let ?r0 = "\<lparr>this = st, trace = [], thrown = None\<rparr>"
  let ?r1 = "await_fetchNarration env ?r0"
  let ?r2 = "andThen ?r1 (await_fetchDataAndProcessResults env)"
  let ?r3 = "andThen ?r2 (buildSections env)"
  let ?r4 = "andThen ?r3 buildScrollamaContainers"
  let ?r5 = "andThen ?r4 (buildGraphs env)"
  have t1: "trace ?r1 = [Call_fetchNarration]"
    by (simp add: await_fetchNarration_trace)
  obtain es2 where t2: "trace ?r2 = trace ?r1 @ es2" "\<forall>c\<in>set es2. codeOrder c = 1"
    using andThen_trace_rank [of "await_fetchDataAndProcessResults env" 1 ?r1]
    by (auto simp: await_fetchDataAndProcessResults_trace)
  obtain es3 where t3: "trace ?r3 = trace ?r2 @ es3" "\<forall>c\<in>set es3. codeOrder c = 2"
    using andThen_trace_rank [of "buildSections env" 2 ?r2] buildSections_trace_rank
    by blast
  obtain es4 where t4: "trace ?r4 = trace ?r3 @ es4" "\<forall>c\<in>set es4. codeOrder c = 3"
    using andThen_trace_rank [of buildScrollamaContainers 3 ?r3]
      buildScrollamaContainers_trace_rank
    by blast
  obtain es5 where t5: "trace ?r5 = trace ?r4 @ es5" "\<forall>c\<in>set es5. codeOrder c = 4"
    using andThen_trace_rank [of "buildGraphs env" 4 ?r4] buildGraphs_trace_rank
    by blast
  have "trace (render env st) = [Call_fetchNarration] @ es2 @ es3 @ es4 @ es5"
    using t1 t2 t3 t4 t5 by (simp add: render_def)
  moreover have "sorted (map codeOrder ([Call_fetchNarration] @ es2 @ es3 @ es4 @ es5))"
    using t2(2) t3(2) t4(2) t5(2)
      sorted_same_rank [OF t2(2)] sorted_same_rank [OF t3(2)]
      sorted_same_rank [OF t4(2)] sorted_same_rank [OF t5(2)]
    by (auto simp: sorted_append)
  ultimately show ?thesis by simp
qed

lemma render_success_trace:
  assumes "thrown (render env st) = None"
  shows "trace (render env st) =
     [Call_fetchNarration, Call_fetchDataAndProcessResults]
     @ map Call_buildSectionWithNarration [0 ..< length (sections (render env st))]
     @ map Call_scrollama_setup [0 ..< length (sections (render env st))]
     @ map Call_buildGraphFunction [0 ..< length (sections (render env st))]"
proof -
  let ?r0 = "\<lparr>this = st, trace = [], thrown = None\<rparr>"
  let ?r1 = "await_fetchNarration env ?r0"
  let ?r2 = "await_fetchDataAndProcessResults env ?r1"
  let ?r3 = "buildSections env ?r2"
  let ?r4 = "buildScrollamaContainers ?r3"
  let ?r5 = "buildGraphs env ?r4"
  from assms have a5: "thrown (andThen (andThen (andThen (andThen ?r1
       (await_fetchDataAndProcessResults env)) (buildSections env))
       buildScrollamaContainers) (buildGraphs env)) = None"
    by (simp add: render_def)
  from andThen_success [OF a5] have a4: "thrown (andThen (andThen (andThen ?r1
       (await_fetchDataAndProcessResults env)) (buildSections env))
       buildScrollamaContainers) = None" by simp
  from andThen_success [OF a4] have a3: "thrown (andThen (andThen ?r1
       (await_fetchDataAndProcessResults env)) (buildSections env)) = None" by simp
  from andThen_success [OF a3] have a2: "thrown (andThen ?r1
       (await_fetchDataAndProcessResults env)) = None" by simp
  from andThen_success [OF a2] have e2: "andThen ?r1 (await_fetchDataAndProcessResults env) = ?r2"
    by simp
  from andThen_success [OF a3] e2 have e3: "andThen ?r2 (buildSections env) = ?r3"
    by simp
  from andThen_success [OF a4] e2 e3 have e4: "andThen ?r3 buildScrollamaContainers = ?r4"
    by simp
  from andThen_success [OF a5] e2 e3 e4 have e5: "andThen ?r4 (buildGraphs env) = ?r5"
    by simp
  have r: "render env st = ?r5"
    by (simp add: render_def e2 e3 e4 e5)
  have ok3: "thrown ?r3 = None" using a3 e2 e3 by simp
  have ok4: "thrown ?r4 = None" using a4 e2 e3 e4 by simp
  have ok5: "thrown ?r5 = None" using a5 e2 e3 e4 e5 by simp
  have n: "length (sections ?r5) = length (sections ?r2)"
    "length (sections ?r4) = length (sections ?r2)"
    "length (sections ?r3) = length (sections ?r2)"
    by (simp_all add: buildGraphs_length buildScrollamaContainers_length buildSections_length)
  have "trace ?r5 = [Call_fetchNarration, Call_fetchDataAndProcessResults]
     @ map Call_buildSectionWithNarration [0 ..< length (sections ?r2)]
     @ map Call_scrollama_setup [0 ..< length (sections ?r2)]
     @ map Call_buildGraphFunction [0 ..< length (sections ?r2)]"
    by (simp only: buildGraphs_trace_success [OF ok5]
        buildScrollamaContainers_trace_success [OF ok4]
        buildSections_trace_success [OF ok3] n
        await_fetchDataAndProcessResults_trace await_fetchNarration_trace) simp
  then show ?thesis
    by (simp only: r n)
qed


lemma example_render:
  "thrown (render exampleCollaborators exampleInstance) = None
   \<and> trace (render exampleCollaborators exampleInstance)
       = [Call_fetchNarration, Call_fetchDataAndProcessResults,
          Call_buildSectionWithNarration 0, Call_scrollama_setup 0, Call_buildGraphFunction 0]"
  by (simp add: render_def andThen_def await_fetchNarration_def
      await_fetchDataAndProcessResults_def buildSections_def buildScrollamaContainers_def
      buildGraphs_def forEachSection_def buildSection_def buildScrollamaContainer_def
      buildGraph_def graphIdForSection_def Let_def sections_def called_def setSection_def
      throw_def exampleCollaborators_def exampleInstance_def exampleSection_def)

text \<open>
  C1, as the code has it. For every instance and whatever the collaborators do,
  \<^verbatim>\<open>render\<close> makes its calls in the order of its statements: \<^verbatim>\<open>fetchNarration\<close>,
  then \<^verbatim>\<open>fetchDataAndProcessResults\<close>, then \<^verbatim>\<open>buildSectionWithNarration\<close> for each
  section, then the scrollama setup for each section, and only then
  \<^verbatim>\<open>buildGraphFunction\<close> for each section: the scroll observers are attached before
  the graphs are built. A run that throws stops somewhere in this order; a run that does
  not throw makes exactly these calls, each loop over all sections in their order.
\<close>

theorem render_phases_in_code_order:
  "sorted (map codeOrder (trace (render env st)))
   \<and> (thrown (render env st) = None \<longrightarrow>
        trace (render env st) =
          [Call_fetchNarration, Call_fetchDataAndProcessResults]
          @ map Call_buildSectionWithNarration [0 ..< length (sections (render env st))]
          @ map Call_scrollama_setup [0 ..< length (sections (render env st))]
          @ map Call_buildGraphFunction [0 ..< length (sections (render env st))])"
  using render_sorted render_success_trace by blast

theorem render_phases_in_code_order_witness:
  "thrown (render exampleCollaborators exampleInstance) = None
   \<and> sorted (map codeOrder (trace (render exampleCollaborators exampleInstance)))
   \<and> trace (render exampleCollaborators exampleInstance) =
          [Call_fetchNarration, Call_fetchDataAndProcessResults]
          @ map Call_buildSectionWithNarration
              [0 ..< length (sections (render exampleCollaborators exampleInstance))]
          @ map Call_scrollama_setup
              [0 ..< length (sections (render exampleCollaborators exampleInstance))]
          @ map Call_buildGraphFunction
              [0 ..< length (sections (render exampleCollaborators exampleInstance))]"
proof -
  note order = render_phases_in_code_order [of exampleCollaborators exampleInstance]
  have ok: "thrown (render exampleCollaborators exampleInstance) = None"
    using example_render by (rule conjunct1)
  from order have "sorted (map codeOrder (trace (render exampleCollaborators exampleInstance)))"
    by (rule conjunct1)
  moreover from order ok have "trace (render exampleCollaborators exampleInstance) =
          [Call_fetchNarration, Call_fetchDataAndProcessResults]
          @ map Call_buildSectionWithNarration
              [0 ..< length (sections (render exampleCollaborators exampleInstance))]
          @ map Call_scrollama_setup
              [0 ..< length (sections (render exampleCollaborators exampleInstance))]
          @ map Call_buildGraphFunction
              [0 ..< length (sections (render exampleCollaborators exampleInstance))]"
    by (elim conjE impE) assumption+
  ultimately show ?thesis
    using ok by (intro conjI)
qed

text \<open>
  The order of the specification's control flow, graphs before scroll observers, is not
  the order of the calls: with one section, the scrollama setup comes before the call of
  the section's \<^verbatim>\<open>buildGraphFunction\<close>.
\<close>

theorem graph_built_after_scroller_counterexample:
  "trace (render exampleCollaborators exampleInstance)
     = [Call_fetchNarration, Call_fetchDataAndProcessResults,
        Call_buildSectionWithNarration 0, Call_scrollama_setup 0, Call_buildGraphFunction 0]
   \<and> \<not> sorted (map specOrder (trace (render exampleCollaborators exampleInstance)))"
  by (simp add: example_render)
section \<open>Properties of the demo section's callbacks\<close>

text \<open>
  C5. Every \<^verbatim>\<open>graph.render\<close> that \<^verbatim>\<open>onScroll\<close> makes has duration 100 and every one
  that \<^verbatim>\<open>onActivateNarration\<close> makes has duration 1000. Both do reach the graph:
  \<^verbatim>\<open>onScroll\<close> renders once, with duration 100, when the state has a non-empty
  \<^verbatim>\<open>yearProgress\<close> and the section has its data, scale and graph;
  \<^verbatim>\<open>onActivateNarration\<close> renders once, last and with duration 1000, when its
  argument has a state and the section a graph.
\<close>

theorem render_durations:
  "set (durations (fst (onScroll js p))) \<subseteq> {100}
   \<and> set (durations (fst (onActivateNarration js q))) \<subseteq> {1000}
   \<and> (\<forall>st yearProgress dat scale g.
         state p = Some st \<and> st ''yearProgress'' = Some yearProgress \<and> yearProgress \<noteq> ''''
         \<and> data (args.sectionConfig p) = Some dat \<and> yearProgressScale dat = Some scale
         \<and> graph (args.sectionConfig p) = Some g
         \<longrightarrow> onScroll js p = ([GraphRender g (Math_floor js (scale yearProgress)) 100], None))
   \<and> (\<forall>st g.
         state q = Some st \<and> graph (args.sectionConfig q) = Some g
         \<longrightarrow> snd (onActivateNarration js q) = None
             \<and> durations (fst (onActivateNarration js q)) = [1000]
             \<and> last (fst (onActivateNarration js q))
                 = GraphRender g (Number js (st ''year'')) 1000)"
  by (auto simp: onScroll_def onActivateNarration_def Let_def split: option.splits)

theorem render_durations_witness:
  "onScroll demoGlobals (demoParams [''yearProgress'' \<mapsto> ''0.5''])
     = ([GraphRender 1 1979 100], None)
   \<and> durations (fst (onActivateNarration demoGlobals (demoParams [''year'' \<mapsto> ''1962''])))
       = [1000]
   \<and> last (fst (onActivateNarration demoGlobals (demoParams [''year'' \<mapsto> ''1962''])))
       = GraphRender 1 1962 1000"
proof -
  let ?p = "demoParams [''yearProgress'' \<mapsto> ''0.5'']"
  let ?q = "demoParams [''year'' \<mapsto> ''1962'']"
  from render_durations [of demoGlobals ?p ?q]
  show ?thesis
    by (simp add: demoParams_def demoSection_def demoGlobals_def)
qed

subsection \<open>The binary64 product with \<^verbatim>\<open>0.9\<close>\<close>

lemma roundTiesToEven_error: "\<bar>roundTiesToEven m s * 2 ^ s - m\<bar> * 2 \<le> 2 ^ s"
proof -
  define q r where "q = m div 2 ^ s" and "r = m mod 2 ^ s"
  have m: "m = q * 2 ^ s + r"
    unfolding q_def r_def by (rule div_mult_mod_eq [symmetric])
  have r: "0 \<le> r" "r < 2 ^ s"
    by (simp_all add: r_def)
  have "roundTiesToEven m s = q \<or> roundTiesToEven m s = q + 1 \<and> 2 ^ s \<le> 2 * r"
    unfolding roundTiesToEven_def Let_def q_def [symmetric] r_def [symmetric] by auto
  moreover have "roundTiesToEven m s = q \<Longrightarrow> 2 * r \<le> 2 ^ s"
    unfolding roundTiesToEven_def Let_def q_def [symmetric] r_def [symmetric]
    by (auto split: if_splits)
  ultimately show ?thesis
    using r by (auto simp: m algebra_simps)
qed

lemma powr_shift: "2 powr real_of_int (e + int s) = 2 powr real_of_int e * 2 ^ s"
  by (simp add: powr_add powr_realpow)

text \<open>Rounding to 53 bits moves a number by at most its \<open>2 ^ 53\<close>th part.\<close>

lemma round53_error: "\<bar>toReal (round53 d) - toReal d\<bar> \<le> \<bar>toReal d\<bar> / 2 ^ 53"
proof (cases "bitlen \<bar>mantissa d\<bar> \<le> 53")
  case True
  then show ?thesis by (simp add: round53_def)
next
  case False
  define m a n s where "m = mantissa d" and "a = \<bar>mantissa d\<bar>"
    and "n = bitlen \<bar>mantissa d\<bar>" and "s = nat (bitlen \<bar>mantissa d\<bar> - 53)"
  define R where "R = roundTiesToEven a s"
  from False have n: "53 < n" by (simp add: n_def)
  then have apos: "0 < a"
    using bitlen_eq_zero_iff [of a] by (auto simp: n_def a_def)
  have s: "int s = n - 53" using n by (simp add: s_def n_def)
  have "(2::int) ^ nat (n - 1) \<le> a"
    using bitlen_bounds [OF apos] by (simp add: n_def a_def)
  moreover have "nat (n - 1) = s + 52" using n s by linarith
  ultimately have lower: "(2::int) ^ s * 2 ^ 52 \<le> a"
    by (simp add: power_add)
  have err: "\<bar>R * 2 ^ s - a\<bar> * 2 \<le> 2 ^ s"
    unfolding R_def by (rule roundTiesToEven_error)
  have sg: "\<bar>real_of_int (sgn m)\<bar> = 1"
    using apos by (auto simp: a_def m_def sgn_if)
  have "round53 d = \<lparr>mantissa = sgn m * R, exponent = exponent d + int s\<rparr>"
    using False by (simp add: round53_def Let_def m_def R_def a_def s_def)
  then have rd: "toReal (round53 d)
                 = real_of_int (sgn m * (R * 2 ^ s)) * 2 powr real_of_int (exponent d)"
    using powr_shift [of "exponent d" s] by (simp add: toReal_def powr_add powr_realpow)
  have "sgn m * a = m"
    unfolding a_def m_def by (rule mult_sgn_abs)
  then have td: "toReal d = real_of_int (sgn m * a) * 2 powr real_of_int (exponent d)"
    by (simp add: toReal_def m_def)
  have "\<bar>toReal (round53 d) - toReal d\<bar>
        = real_of_int \<bar>R * 2 ^ s - a\<bar> * 2 powr real_of_int (exponent d)"
  proof -
    have "toReal (round53 d) - toReal d
          = real_of_int (sgn m * (R * 2 ^ s - a)) * 2 powr real_of_int (exponent d)"
      unfolding rd td by (simp add: algebra_simps)
    then show ?thesis
      by (simp add: abs_mult sg)
  qed
  also have "\<dots> \<le> (real_of_int a / 2 ^ 53) * 2 powr real_of_int (exponent d)"
  proof (rule mult_right_mono)
    from err have "\<bar>R * 2 ^ s - a\<bar> * 2 * 2 ^ 52 \<le> 2 ^ s * 2 ^ 52"
      by (rule mult_right_mono) simp
    with lower have "\<bar>R * 2 ^ s - a\<bar> * 2 ^ 53 \<le> a"
      by simp
    then have "real_of_int (\<bar>R * 2 ^ s - a\<bar> * 2 ^ 53) \<le> real_of_int a"
      by (rule of_int_le_iff [THEN iffD2])
    then show "real_of_int \<bar>R * 2 ^ s - a\<bar> \<le> real_of_int a / 2 ^ 53"
      by (simp add: field_simps)
  qed simp
  also have "\<dots> = \<bar>toReal d\<bar> / 2 ^ 53"
    using apos by (simp add: td abs_mult sg)
  finally show ?thesis .
qed

lemma toReal_minus53:
  "toReal \<lparr>mantissa = m, exponent = - 53\<rparr> = real_of_int m / 2 ^ 53"
proof -
  have "(2::real) powr - 53 = 1 / 2 ^ 53"
    by (simp add: powr_minus_divide)
  then show ?thesis
    by (simp add: toReal_def)
qed

text \<open>
  The product with \<^verbatim>\<open>0.9\<close> is within the \<open>2 ^ 52\<close>th part of the integer of nine
  tenths of it: the literal is off nine tenths by \<open>1 / (5 * 2 ^ 53)\<close>, and the rounding
  of the product adds at most its \<open>2 ^ 53\<close>th part.
\<close>

lemma times_0_9_error:
  "\<bar>toReal (multiply (fromInt w) literal_0_9) - 9 / 10 * real_of_int w\<bar>
     \<le> \<bar>real_of_int w\<bar> / 2 ^ 52"
proof -
  define x where "x = \<lparr>mantissa = w * 8106479329266893, exponent = - 53\<rparr>"
  define W where "W = real_of_int w"
  have x: "toReal x = W * (8106479329266893 / 2 ^ 53)"
    unfolding x_def W_def by (simp add: toReal_minus53)
  have res: "multiply (fromInt w) literal_0_9 = round53 x"
    by (simp add: multiply_def fromInt_def literal_0_9_def x_def)
  have e1: "\<bar>toReal (round53 x) - toReal x\<bar> \<le> \<bar>toReal x\<bar> / 2 ^ 53"
    by (rule round53_error)
  have "\<bar>toReal x\<bar> = \<bar>W\<bar> * (8106479329266893 / 2 ^ 53)"
    unfolding x by (simp add: abs_mult)
  also have "\<dots> \<le> \<bar>W\<bar> * 1"
    by (rule mult_left_mono) simp_all
  finally have e2: "\<bar>toReal x\<bar> \<le> \<bar>W\<bar>" by simp
  have eq: "toReal x - 9 / 10 * W = W / (5 * 2 ^ 53)"
    unfolding x by (simp add: field_simps)
  have e3: "\<bar>toReal x - 9 / 10 * W\<bar> = \<bar>W\<bar> / (5 * 2 ^ 53)"
    unfolding eq by simp
  have "\<bar>toReal (round53 x) - 9 / 10 * W\<bar>
          \<le> \<bar>toReal (round53 x) - toReal x\<bar> + \<bar>toReal x - 9 / 10 * W\<bar>"
    by simp
  also have "\<dots> \<le> \<bar>W\<bar> / 2 ^ 53 + \<bar>W\<bar> / (5 * 2 ^ 53)"
    using e1 e2 e3 by (simp add: divide_right_mono order_trans [OF e1])
  also have "\<dots> \<le> \<bar>W\<bar> / 2 ^ 52"
    by (simp add: field_simps)
  finally show ?thesis
    unfolding res W_def .
qed

lemma product_109: "toReal (multiply (fromInt 109) literal_0_9) = 6903173803828839 / 2 ^ 46"
proof -
  have "multiply (fromInt 109) literal_0_9
          = \<lparr>mantissa = 6903173803828839, exponent = - 46\<rparr>"
    by code_simp
  moreover have "(2::real) powr - 46 = 1 / 2 ^ 46"
    by (simp add: powr_minus_divide)
  ultimately show ?thesis
    by (simp add: toReal_def)
qed

lemma product_500: "toReal (multiply (fromInt 500) literal_0_9) = 450"
proof -
  have "multiply (fromInt 500) literal_0_9
          = \<lparr>mantissa = 7916483719987200, exponent = - 44\<rparr>"
    by code_simp
  moreover have "(2::real) powr - 44 = 1 / 2 ^ 44"
    by (simp add: powr_minus_divide)
  ultimately show ?thesis
    by (simp add: toReal_def)
qed

lemma product_1000: "toReal (multiply (fromInt 1000) literal_0_9) = 900"
proof -
  have "multiply (fromInt 1000) literal_0_9
          = \<lparr>mantissa = 7916483719987200, exponent = - 43\<rparr>"
    by code_simp
  moreover have "(2::real) powr - 43 = 1 / 2 ^ 43"
    by (simp add: powr_minus_divide)
  ultimately show ?thesis
    by (simp add: toReal_def)
qed

text \<open>
  C9, as the code has it. When the section has a graph handle and the graph element is
  given, with \<^verbatim>\<open>offsetWidth\<close> and \<^verbatim>\<open>offsetHeight\<close> 32-bit integers, \<^verbatim>\<open>onResize\<close>
  makes one call, \<^verbatim>\<open>graph.resize\<close>, whose width and height are the binary64
  products of \<^verbatim>\<open>offsetWidth\<close> and of \<^verbatim>\<open>offsetHeight\<close> with \<^verbatim>\<open>0.9\<close>. Each is 90
  percent of the dimension up to the rounding of the floating-point arithmetic: it
  differs from nine tenths of the dimension by at most the \<open>2 ^ 52\<close>th part of the
  dimension.
\<close>

theorem onResize_binary64_products:
  assumes "graph (resizeParams.sectionConfig p) = Some g"
    and "graphElement p = Some el"
    and "\<bar>offsetWidth el\<bar> < 2 ^ 31"
    and "\<bar>offsetHeight el\<bar> < 2 ^ 31"
  shows "\<exists>w h. onResize p = ([GraphResize g w h], None)
           \<and> w = toReal (multiply (fromInt (offsetWidth el)) literal_0_9)
           \<and> h = toReal (multiply (fromInt (offsetHeight el)) literal_0_9)
           \<and> \<bar>w - 9 / 10 * real_of_int (offsetWidth el)\<bar>
               \<le> \<bar>real_of_int (offsetWidth el)\<bar> / 2 ^ 52
           \<and> \<bar>h - 9 / 10 * real_of_int (offsetHeight el)\<bar>
               \<le> \<bar>real_of_int (offsetHeight el)\<bar> / 2 ^ 52"
proof (intro exI conjI)
  show "onResize p
          = ([GraphResize g (toReal (multiply (fromInt (offsetWidth el)) literal_0_9))
                            (toReal (multiply (fromInt (offsetHeight el)) literal_0_9))], None)"
    using assms(1,2) by (simp add: onResize_def)
qed (rule refl times_0_9_error)+

theorem onResize_binary64_products_witness:
  "graph demoSection = Some 1
   \<and> \<bar>1000 :: int\<bar> < 2 ^ 31 \<and> \<bar>500 :: int\<bar> < 2 ^ 31
   \<and> (onResize \<lparr>graphElement = Some \<lparr>offsetWidth = 1000, offsetHeight = 500\<rparr>,
                resizeParams.graphId = ''graph_healthAndWealth'',
                resizeParams.sectionConfig = demoSection\<rparr>
        :: (nat, int) effect list \<times> error option)
       = ([GraphResize 1 900 450], None)"
proof -
  let ?p = "\<lparr>graphElement = Some \<lparr>offsetWidth = 1000, offsetHeight = 500\<rparr>,
             resizeParams.graphId = ''graph_healthAndWealth'',
             resizeParams.sectionConfig = demoSection\<rparr>"
  have g: "graph (resizeParams.sectionConfig ?p) = Some 1"
    by (simp add: demoSection_def)
  have el: "graphElement ?p = Some \<lparr>offsetWidth = 1000, offsetHeight = 500\<rparr>"
    by simp
  have w: "\<bar>offsetWidth \<lparr>offsetWidth = 1000, offsetHeight = 500\<rparr>\<bar> < 2 ^ 31"
    by simp
  have h: "\<bar>offsetHeight \<lparr>offsetWidth = 1000, offsetHeight = 500\<rparr>\<bar> < 2 ^ 31"
    by simp
  from onResize_binary64_products [OF g el w h]
  show ?thesis
    using g by (auto simp: product_1000 product_500)
qed

text \<open>
  Exactly 90 percent it is not: at an \<^verbatim>\<open>offsetWidth\<close> of 109 the width passed is
  \<open>6903173803828839 / 2 ^ 46\<close>, which JavaScript prints as 98.10000000000001, and
  not 98.1.
\<close>

theorem onResize_width_109_counterexample:
  "(onResize \<lparr>graphElement = Some \<lparr>offsetWidth = 109, offsetHeight = 500\<rparr>,
              resizeParams.graphId = ''graph_healthAndWealth'',
              resizeParams.sectionConfig = demoSection\<rparr>
      :: (nat, int) effect list \<times> error option)
     = ([GraphResize 1 (6903173803828839 / 2 ^ 46) 450], None)
   \<and> (6903173803828839 / 2 ^ 46 :: real) \<noteq> 90 / 100 * real_of_int 109"
  by (simp add: onResize_def demoSection_def product_109 product_500)

section \<open>Properties of the trigger decomposition\<close>

lemma assignPairs_snoc: "assignPairs (pairs @ [p]) = assignPair (assignPairs pairs) p"
  by (simp add: assignPairs_def)

lemma assignPairs_lookup:
  "assignPairs pairs k =
     (case find (\<lambda>p. wellFormed p \<and> keyOf p = k) (rev pairs) of
        None \<Rightarrow> None | Some p \<Rightarrow> Some (valueOf p))"
proof (induction pairs rule: rev_induct)
  case Nil
  show ?case by (simp add: assignPairs_def)
next
  case (snoc p pairs)
  then show ?case
    by (simp add: assignPairs_snoc assignPair_def)
qed

lemmas decomposition_defs = convertTriggerToObject_def assignPairs_def assignPair_def
  wellFormed_def keyOf_def valueOf_def trim_def

text \<open>
  C6. The two triggers of the specification decompose as it says:
  \<^verbatim>\<open>year:1962 snippet:intro\<close> to the mapping of \<^verbatim>\<open>year\<close> to \<^verbatim>\<open>1962\<close> and
  \<^verbatim>\<open>snippet\<close> to \<^verbatim>\<open>intro\<close>, and \<^verbatim>\<open>malformed\<close> to the empty mapping. In a
  trigger with a key twice and a pair without delimiter between, the later value stands
  and the malformed pair leaves no entry. In general the value of a key in the
  decomposition of any trigger is the value of the last pair with a delimiter that has
  this key, and the key is absent when there is no such pair: pairs without the
  delimiter contribute nothing, and a later pair overwrites an earlier one.
\<close>

theorem trigger_decomposition:
  "convertTriggerToObject ''year:1962 snippet:intro''
     = [''year'' \<mapsto> ''1962'', ''snippet'' \<mapsto> ''intro'']
   \<and> convertTriggerToObject ''malformed'' = Map.empty
   \<and> convertTriggerToObject ''year:1950 bad  year:2008 '' = [''year'' \<mapsto> ''2008'']
   \<and> (\<forall>t k. convertTriggerToObject t k =
         (case find (\<lambda>p. wellFormed p \<and> keyOf p = k) (rev (splitOn CHR '' '' t)) of
            None \<Rightarrow> None | Some p \<Rightarrow> Some (valueOf p)))"
proof (intro conjI allI)
  show "convertTriggerToObject ''year:1962 snippet:intro''
          = [''year'' \<mapsto> ''1962'', ''snippet'' \<mapsto> ''intro'']"
    by (simp add: decomposition_defs)
  show "convertTriggerToObject ''malformed'' = Map.empty"
    by (simp add: decomposition_defs)
  show "convertTriggerToObject ''year:1950 bad  year:2008 '' = [''year'' \<mapsto> ''2008'']"
    by (simp add: decomposition_defs)
  show "convertTriggerToObject t k =
         (case find (\<lambda>p. wellFormed p \<and> keyOf p = k) (rev (splitOn CHR '' '' t)) of
            None \<Rightarrow> None | Some p \<Rightarrow> Some (valueOf p))" for t k
    unfolding convertTriggerToObject_def by (rule assignPairs_lookup)
qed

end
